theory Spec2Isabelle
  imports Complex_Main
begin

section \<open>Data model of the ping monitor\<close>

text \<open>
  The embedding follows \<^verbatim>\<open>backend/app/modules/ping_service.py\<close>,
  \<^verbatim>\<open>backend/app/modules/database.py\<close>, \<^verbatim>\<open>backend/app/modules/crud.py\<close> and
  \<^verbatim>\<open>backend/app/api/routers/websocket.py\<close>.

  Conventions of the model:
  \<^item> Python floats are modelled by exact rationals (\<^typ>\<open>rat\<close>).
  \<^item> An instant (\<^verbatim>\<open>datetime.utcnow()\<close>, and its \<^verbatim>\<open>isoformat()\<close> rendering) is an
    integer number of microseconds; the clock reading is a parameter of each operation.
  \<^item> The outside world is a parameter: what \<^verbatim>\<open>ping3.ping\<close> does for a host, whether a
    \<^verbatim>\<open>send_json\<close> on a channel raises, whether the database statement raises.
  \<^item> Execution is sequential: one operation runs to completion before the next starts.
\<close>

text \<open>The dict built by \<^verbatim>\<open>PingMonitor.ping_host\<close>.\<close>

record measurement =
  host :: string
  response_time_ms :: "rat option"
  packet_loss :: bool
  error_message :: "string option"
  timestamp :: int

text \<open>
  What one call \<^verbatim>\<open>ping(host, timeout=timeout, unit='ms')\<close> of the ping3 library does:
  \<^item> it returns \<^verbatim>\<open>None\<close> when no reply came within the timeout;
  \<^item> it returns the delay in milliseconds;
  \<^item> it returns \<^verbatim>\<open>False\<close> on an error, which is how the library reports a host name that
    does not resolve;
  \<^item> it raises an exception whose \<^verbatim>\<open>str\<close> is the given text.
\<close>

datatype ping_outcome =
    Returns_None
  | Returns_delay rat
  | Returns_False
  | Raises string

text \<open>
  Python's \<^verbatim>\<open>round(x, 2)\<close>: the nearest multiple of one hundredth, a tie going to the
  even one.
\<close>

definition py_round2 :: "rat \<Rightarrow> rat" where
  "py_round2 x =
     (let y = x * 100; f = \<lfloor>y\<rfloor>; d = y - of_int f
      in of_int (if d < 1 / 2 then f
                 else if 1 / 2 < d then f + 1
                 else if even f then f else f + 1) / 100)"

text \<open>
  \<^verbatim>\<open>ping_host\<close>. The three \<^verbatim>\<open>return\<close> statements of the source are the three shapes of
  result; the \<^verbatim>\<open>except Exception\<close> branch is the \<open>Raises\<close> case. \<^verbatim>\<open>False is None\<close> is
  false in Python and \<^verbatim>\<open>round(False, 2)\<close> is \<^verbatim>\<open>0\<close>, so a \<^verbatim>\<open>False\<close> return takes the
  \<^verbatim>\<open>else\<close> branch.
\<close>

definition ping_host :: "(string \<Rightarrow> nat \<Rightarrow> ping_outcome) \<Rightarrow> int \<Rightarrow> string \<Rightarrow> nat \<Rightarrow> measurement" where
  "ping_host ping now h timeout =
     (case ping h timeout of
        Returns_None \<Rightarrow>
          \<lparr>host = h, response_time_ms = None, packet_loss = True,
           error_message = Some ''Ping timeout or host unreachable'', timestamp = now\<rparr>
      | Returns_delay response_time \<Rightarrow>
          \<lparr>host = h, response_time_ms = Some (py_round2 response_time), packet_loss = False,
           error_message = None, timestamp = now\<rparr>
      | Returns_False \<Rightarrow>
          \<lparr>host = h, response_time_ms = Some 0, packet_loss = False,
           error_message = None, timestamp = now\<rparr>
      | Raises e \<Rightarrow>
          \<lparr>host = h, response_time_ms = None, packet_loss = True,
           error_message = Some e, timestamp = now\<rparr>)"

text \<open>
  The two WebSocket endpoints of \<^verbatim>\<open>routers/websocket.py\<close>: \<^verbatim>\<open>websocket_ping_status\<close>, the
  full topic, and \<^verbatim>\<open>websocket_dns_status\<close>, the DNS-only topic.
\<close>

datatype endpoint = Ping_status | Dns_status

text \<open>
  A WebSocket channel object.
  \<^item> \<open>accepted_by\<close> is the endpoint that accepted the channel and registered it with
    \<^verbatim>\<open>websocket_manager.connect\<close>; this is the topic the subscriber asked for. No code of
    the repository records or reads it.
  \<^item> \<open>path\<close> is the attribute read by \<^verbatim>\<open>getattr(client, 'path', '/api/ws/ping-status')\<close>:
    \<open>None\<close> when the object has no such attribute. The objects that the endpoints
    register are the framework's \<^verbatim>\<open>WebSocket\<close> objects; that class defines no attribute
    \<^verbatim>\<open>path\<close> and no code of the repository sets one, so \<open>path\<close> is \<open>None\<close> for every
    registered subscriber.
\<close>

record client =
  client_id :: nat
  accepted_by :: endpoint
  path :: "string option"

text \<open>
  The fields of \<^verbatim>\<open>PingMonitor\<close>. \<^verbatim>\<open>target_hosts\<close> is a Python list;
  \<^verbatim>\<open>websocket_clients\<close> is a Python set, kept here as the duplicate-free list of its
  elements in the order a loop over it visits them; \<^verbatim>\<open>latest_results\<close> is a dict.
\<close>

record ping_monitor =
  is_running :: bool
  ping_interval :: int
  target_hosts :: "string list"
  websocket_clients :: "client list"
  latest_results :: "string \<rightharpoonup> measurement"

definition init_monitor :: "int \<Rightarrow> ping_monitor" where
  "init_monitor interval =
     \<lparr>is_running = False, ping_interval = interval,
      target_hosts = [''8.8.8.8'', ''1.1.1.1'', ''208.67.222.222'', ''google.com'', ''github.com''],
      websocket_clients = [], latest_results = Map.empty\<rparr>"

section \<open>Target registry\<close>

definition add_target_host :: "string \<Rightarrow> ping_monitor \<Rightarrow> ping_monitor" where
  "add_target_host h s =
     (if h \<notin> set (target_hosts s) then s\<lparr>target_hosts := target_hosts s @ [h]\<rparr> else s)"

text \<open>\<^verbatim>\<open>list.remove\<close> deletes the first occurrence only: \<^const>\<open>remove1\<close>.\<close>

definition remove_target_host :: "string \<Rightarrow> ping_monitor \<Rightarrow> ping_monitor" where
  "remove_target_host h s =
     (if h \<in> set (target_hosts s) then
        (let s1 = s\<lparr>target_hosts := remove1 h (target_hosts s)\<rparr>
         in if latest_results s1 h \<noteq> None
            then s1\<lparr>latest_results := (latest_results s1)(h := None)\<rparr>
            else s1)
      else s)"

definition get_target_hosts :: "ping_monitor \<Rightarrow> string list" where
  "get_target_hosts s = target_hosts s"

definition get_latest_results :: "ping_monitor \<Rightarrow> (string \<rightharpoonup> measurement)" where
  "get_latest_results s = latest_results s"

definition add_websocket_client :: "client \<Rightarrow> ping_monitor \<Rightarrow> ping_monitor" where
  "add_websocket_client c s =
     (if c \<in> set (websocket_clients s) then s
      else s\<lparr>websocket_clients := websocket_clients s @ [c]\<rparr>)"

definition remove_websocket_client :: "client \<Rightarrow> ping_monitor \<Rightarrow> ping_monitor" where
  "remove_websocket_client c s = s\<lparr>websocket_clients := removeAll c (websocket_clients s)\<rparr>"

section \<open>Broadcasting to the WebSocket clients\<close>

text \<open>
  The dict handed to \<^verbatim>\<open>broadcast_to_websockets\<close>, by its \<^verbatim>\<open>'type'\<close> key:
  \<^item> \<open>Ping_result r\<close> is \<^verbatim>\<open>{'type': 'ping_result', 'result': r}\<close>, with \<open>None\<close> for a missing
    or empty \<^verbatim>\<open>result\<close>;
  \<^item> \<open>Ping_update rs ts\<close> is \<^verbatim>\<open>{'type': 'ping_update', 'timestamp': ts, 'results': rs}\<close>, the
    dict built by \<^verbatim>\<open>monitoring_loop\<close>;
  \<^item> \<open>Dns_status_result\<close> and \<open>Dns_status_update\<close> are the two \<^verbatim>\<open>dns_data\<close> dicts of type
    \<^verbatim>\<open>'dns_status_update'\<close> built inside the broadcast;
  \<^item> \<open>Other_message t\<close> is a dict of any other type.
\<close>

datatype envelope =
    Ping_result "measurement option"
  | Ping_update "measurement list" "int option"
  | Dns_status_result measurement
  | Dns_status_update "measurement list" "int option"
  | Other_message string

definition dns_hosts :: "string list" where
  "dns_hosts = [''8.8.8.8'', ''1.1.1.1'', ''208.67.222.222'']"

text \<open>Python's \<^verbatim>\<open>sub in s\<close> on strings: \<open>sub\<close> occurs in \<open>s\<close> as a contiguous piece.\<close>

fun py_in_str :: "string \<Rightarrow> string \<Rightarrow> bool" where
  "py_in_str sub [] = (sub = [])"
| "py_in_str sub (c # cs) = (take (length sub) (c # cs) = sub \<or> py_in_str sub cs)"

text \<open>
  Lines 46 to 69 of \<^verbatim>\<open>ping_service.py\<close>: the dict that will be sent, and the flag
  \<^verbatim>\<open>is_dns_update\<close>. When a DNS host is among the results the local \<^verbatim>\<open>data\<close> is
  overwritten by \<^verbatim>\<open>dns_data\<close>.
\<close>

definition dns_classify :: "envelope \<Rightarrow> envelope \<times> bool" where
  "dns_classify data =
     (case data of
        Ping_result (Some r) \<Rightarrow>
          if host r \<in> set dns_hosts then (Dns_status_result r, True) else (data, False)
      | Ping_update rs ts \<Rightarrow>
          if rs \<noteq> [] then
            (let dns_results = filter (\<lambda>r. host r \<in> set dns_hosts) rs
             in if dns_results \<noteq> [] then (Dns_status_update dns_results ts, True)
                else (data, False))
          else (data, False)
      | _ \<Rightarrow> (data, False))"

definition client_path :: "client \<Rightarrow> string" where
  "client_path c = (case path c of None \<Rightarrow> ''/api/ws/ping-status'' | Some p \<Rightarrow> p)"

text \<open>
  The two membership tests of the loop body, on the string \<^verbatim>\<open>client_path\<close>: the broadcast
  treats a client as being on the full topic when that string contains
  \<^verbatim>\<open>/api/ws/ping-status\<close>, and as being on the DNS-only topic when it contains
  \<^verbatim>\<open>/api/ws/dns-status\<close>.
\<close>

definition on_full_topic :: "client \<Rightarrow> bool" where
  "on_full_topic c = py_in_str ''/api/ws/ping-status'' (client_path c)"

definition on_dns_topic :: "client \<Rightarrow> bool" where
  "on_dns_topic c = py_in_str ''/api/ws/dns-status'' (client_path c)"

text \<open>
  One call of \<^verbatim>\<open>client.send_json(data)\<close>, as recorded by the model: the client, the dict,
  and the text of the exception if the call raised.
\<close>

type_synonym attempt = "client \<times> envelope \<times> string option"

text \<open>
  The body of the \<^verbatim>\<open>try\<close> for one client: \<open>None\<close> when nothing is sent, otherwise the
  outcome of the send (\<open>Inl\<close> is the exception).
\<close>

definition try_send ::
  "(client \<Rightarrow> envelope \<Rightarrow> string option) \<Rightarrow> envelope \<Rightarrow> bool \<Rightarrow> client \<Rightarrow> (string + unit) option" where
  "try_send send_json data is_dns_update c =
     (if is_dns_update \<and> on_dns_topic c then
        Some (case send_json c data of Some e \<Rightarrow> Inl e | None \<Rightarrow> Inr ())
      else if \<not> is_dns_update \<and> on_full_topic c then
        Some (case send_json c data of Some e \<Rightarrow> Inl e | None \<Rightarrow> Inr ())
      else None)"

text \<open>
  The loop over \<^verbatim>\<open>self.websocket_clients.copy()\<close>, with its \<^verbatim>\<open>except Exception\<close> handler:
  it returns the sends made, in order, and \<^verbatim>\<open>clients_to_remove\<close>.
\<close>

fun send_loop ::
  "(client \<Rightarrow> envelope \<Rightarrow> string option) \<Rightarrow> envelope \<Rightarrow> bool \<Rightarrow> client list
     \<Rightarrow> attempt list \<times> client list" where
  "send_loop send_json data is_dns_update [] = ([], [])"
| "send_loop send_json data is_dns_update (c # cs) =
     (let (sent, clients_to_remove) = send_loop send_json data is_dns_update cs
      in case try_send send_json data is_dns_update c of
           None \<Rightarrow> (sent, clients_to_remove)
         | Some (Inr _) \<Rightarrow> ((c, data, None) # sent, clients_to_remove)
         | Some (Inl e) \<Rightarrow> ((c, data, Some e) # sent, c # clients_to_remove))"

definition broadcast_to_websockets ::
  "(client \<Rightarrow> envelope \<Rightarrow> string option) \<Rightarrow> envelope \<Rightarrow> ping_monitor
     \<Rightarrow> ping_monitor \<times> attempt list" where
  "broadcast_to_websockets send_json data0 s =
     (if websocket_clients s = [] then (s, [])
      else
        (let (data, is_dns_update) = dns_classify data0;
             (sent, clients_to_remove) =
                send_loop send_json data is_dns_update (websocket_clients s)
         in (s\<lparr>websocket_clients :=
                 filter (\<lambda>c. c \<notin> set clients_to_remove) (websocket_clients s)\<rparr>,
             sent)))"

text \<open>The hosts named in the payload of a dict.\<close>

fun envelope_hosts :: "envelope \<Rightarrow> string list" where
  "envelope_hosts (Ping_result None) = []"
| "envelope_hosts (Ping_result (Some r)) = [host r]"
| "envelope_hosts (Ping_update rs ts) = map host rs"
| "envelope_hosts (Dns_status_result r) = [host r]"
| "envelope_hosts (Dns_status_update rs ts) = map host rs"
| "envelope_hosts (Other_message t) = []"

section \<open>Persistence\<close>

text \<open>\<^verbatim>\<open>PingMetricCreate\<close> and a row of the table \<^verbatim>\<open>ping_metrics\<close>.\<close>

record ping_metric_create =
  target_host :: string
  metric_response_time_ms :: "rat option"
  metric_packet_loss :: bool
  metric_error_message :: "string option"

record ping_metric_row = ping_metric_create +
  row_id :: nat
  row_timestamp :: int
  created_at :: int

text \<open>
  \<^verbatim>\<open>DatabaseManager\<close>: whether the pool has been created, the rows of the table in
  insertion order, and the next value of the serial key.
\<close>

record database =
  pool :: bool
  table_rows :: "ping_metric_row list"
  next_id :: nat

text \<open>
  \<^verbatim>\<open>insert_ping_metric\<close>. \<^verbatim>\<open>get_connection\<close> raises when the pool is missing; \<open>fault\<close> gives
  the exception raised by the statement itself for this record, if any.
\<close>

definition insert_ping_metric ::
  "(ping_metric_create \<Rightarrow> string option) \<Rightarrow> int \<Rightarrow> database \<Rightarrow> ping_metric_create
     \<Rightarrow> string + (nat \<times> database)" where
  "insert_ping_metric fault now db metric =
     (if \<not> pool db then Inl ''Database pool not initialized''
      else case fault metric of
             Some e \<Rightarrow> Inl e
           | None \<Rightarrow>
               Inr (next_id db,
                    db\<lparr>table_rows := table_rows db @
                          [\<lparr>target_host = target_host metric,
                            metric_response_time_ms = metric_response_time_ms metric,
                            metric_packet_loss = metric_packet_loss metric,
                            metric_error_message = metric_error_message metric,
                            row_id = next_id db, row_timestamp = now, created_at = now\<rparr>],
                        next_id := next_id db + 1\<rparr>))"

definition metric_of :: "measurement \<Rightarrow> ping_metric_create" where
  "metric_of r =
     \<lparr>target_host = host r, metric_response_time_ms = response_time_ms r,
      metric_packet_loss = packet_loss r, metric_error_message = error_message r\<rparr>"

text \<open>
  The \<^verbatim>\<open>for\<close> loop of \<^verbatim>\<open>save_ping_results\<close>. The loop stands inside the \<^verbatim>\<open>try\<close>, so an
  exception ends it; what was written before stays written. The third component is the
  exception that ended the loop.
\<close>

fun save_loop ::
  "(ping_metric_create \<Rightarrow> string option) \<Rightarrow> int \<Rightarrow> measurement list
     \<Rightarrow> ping_monitor \<times> database \<Rightarrow> ping_monitor \<times> database \<times> string option" where
  "save_loop fault now [] (s, db) = (s, db, None)"
| "save_loop fault now (r # rs) (s, db) =
     (case insert_ping_metric fault now db (metric_of r) of
        Inl e \<Rightarrow> (s, db, Some e)
      | Inr (_, db') \<Rightarrow>
          save_loop fault now rs (s\<lparr>latest_results := (latest_results s)(host r \<mapsto> r)\<rparr>, db'))"

text \<open>
  \<^verbatim>\<open>save_ping_results\<close>: the handler turns the exception into one line of the error log
  (the third component).
\<close>

definition save_ping_results ::
  "(ping_metric_create \<Rightarrow> string option) \<Rightarrow> int \<Rightarrow> measurement list
     \<Rightarrow> ping_monitor \<times> database \<Rightarrow> ping_monitor \<times> database \<times> string list" where
  "save_ping_results fault now results sd =
     (case save_loop fault now results sd of
        (s', db', None) \<Rightarrow> (s', db', [])
      | (s', db', Some e) \<Rightarrow> (s', db', [''Failed to save ping results: '' @ e]))"

section \<open>One cycle of the monitoring loop\<close>

definition ping_all_hosts ::
  "(string \<Rightarrow> nat \<Rightarrow> ping_outcome) \<Rightarrow> int \<Rightarrow> ping_monitor \<Rightarrow> measurement list" where
  "ping_all_hosts ping now s = map (\<lambda>h. ping_host ping now h 3) (target_hosts s)"

text \<open>
  The body of the \<^verbatim>\<open>while self.is_running\<close> loop, up to the sleep: the new monitor and
  database, the error log of the save phase, and the sends of the broadcast phase. Each of
  the three phases handles its own exceptions, so the outer \<^verbatim>\<open>except\<close> of the loop body is
  not entered.
\<close>

definition monitoring_cycle ::
  "(string \<Rightarrow> nat \<Rightarrow> ping_outcome) \<Rightarrow> (ping_metric_create \<Rightarrow> string option)
     \<Rightarrow> (client \<Rightarrow> envelope \<Rightarrow> string option) \<Rightarrow> int \<Rightarrow> ping_monitor \<times> database
     \<Rightarrow> ping_monitor \<times> database \<times> string list \<times> attempt list" where
  "monitoring_cycle ping fault send_json now sd =
     (let results = ping_all_hosts ping now (fst sd);
          (s1, db1, errors) = save_ping_results fault now results sd;
          (s2, sent) = broadcast_to_websockets send_json (Ping_update results (Some now)) s1
      in (s2, db1, errors, sent))"

section \<open>Host summary\<close>

text \<open>The row returned by the aggregate query of \<^verbatim>\<open>get_host_summary\<close>.\<close>

record summary_row =
  total_pings :: nat
  avg_response_time :: "rat option"
  min_response_time :: "rat option"
  max_response_time :: "rat option"
  median_response_time :: "rat option"
  p95_response_time :: "rat option"
  packet_losses :: nat
  packet_loss_rate :: rat
  first_ping :: "int option"
  last_ping :: "int option"

text \<open>
  SQL aggregates skip nulls and are null on no input. \<^verbatim>\<open>PERCENTILE_CONT(f)\<close> interpolates
  linearly between the two ordered values around position \<open>f * (n - 1)\<close>.
\<close>

definition sql_avg :: "rat list \<Rightarrow> rat option" where
  "sql_avg xs = (if xs = [] then None else Some (sum_list xs / of_nat (length xs)))"

definition sql_min :: "('a::linorder) list \<Rightarrow> 'a option" where
  "sql_min xs = (case xs of [] \<Rightarrow> None | y # ys \<Rightarrow> Some (fold min ys y))"

definition sql_max :: "('a::linorder) list \<Rightarrow> 'a option" where
  "sql_max xs = (case xs of [] \<Rightarrow> None | y # ys \<Rightarrow> Some (fold max ys y))"

definition percentile_cont :: "rat \<Rightarrow> rat list \<Rightarrow> rat option" where
  "percentile_cont f xs =
     (if xs = [] then None
      else
        (let ys = sort xs;
             rn = f * of_nat (length ys - 1);
             lo = nat \<lfloor>rn\<rfloor>;
             hi = nat \<lceil>rn\<rceil>
         in Some (ys ! lo + (rn - of_nat lo) * (ys ! hi - ys ! lo))))"

text \<open>
  The query, run on the rows with \<^verbatim>\<open>target_host = $1 AND timestamp >= $2\<close>. An aggregate
  without \<^verbatim>\<open>GROUP BY\<close> always yields one row; on no matching row the division
  \<^verbatim>\<open>...::FLOAT / COUNT(*)\<close> is a division by zero, which the database raises.
\<close>

definition host_summary_query ::
  "database \<Rightarrow> string \<Rightarrow> int \<Rightarrow> string + summary_row option" where
  "host_summary_query db h since =
     (if \<not> pool db then Inl ''Database pool not initialized''
      else
        (let sel = filter (\<lambda>r. target_host r = h \<and> since \<le> row_timestamp r) (table_rows db);
             times = concat (map (\<lambda>r. case metric_response_time_ms r of
                                          None \<Rightarrow> [] | Some t \<Rightarrow> [t]) sel);
             lost = length (filter metric_packet_loss sel)
         in if length sel = 0 then Inl ''division by zero''
            else Inr (Some
              \<lparr>total_pings = length sel,
               avg_response_time = sql_avg times,
               min_response_time = sql_min times,
               max_response_time = sql_max times,
               median_response_time = percentile_cont (1 / 2) times,
               p95_response_time = percentile_cont (95 / 100) times,
               packet_losses = lost,
               packet_loss_rate = of_nat lost / of_nat (length sel),
               first_ping = sql_min (map row_timestamp sel),
               last_ping = sql_max (map row_timestamp sel)\<rparr>)))"

text \<open>
  The range of Python's \<^verbatim>\<open>timedelta\<close> (at most 999999999 days in magnitude) and of
  \<^verbatim>\<open>datetime\<close> (years 1 to 9999), in microseconds; instants count from 1970. Building a
  \<^verbatim>\<open>timedelta\<close> outside its range, and a subtraction that leaves the range of \<^verbatim>\<open>datetime\<close>,
  raise \<^verbatim>\<open>OverflowError\<close>. The \<open>Inl\<close> value is the \<^verbatim>\<open>str\<close> of the exception; for the
  \<^verbatim>\<open>timedelta\<close> the message depends on the interpreter and the class name stands for it.
\<close>

definition py_timedelta :: "int \<Rightarrow> string + int" where
  "py_timedelta us =
     (if - 86399999913600000000 \<le> us \<and> us \<le> 86399999999999999999 then Inr us
      else Inl ''OverflowError'')"

definition datetime_minus :: "int \<Rightarrow> int \<Rightarrow> string + int" where
  "datetime_minus t delta =
     (if - 62135596800000000 \<le> t - delta \<and> t - delta \<le> 253402300799999999
      then Inr (t - delta)
      else Inl ''date value out of range'')"

text \<open>
  \<^verbatim>\<open>datetime.utcnow() - timedelta(minutes=m)\<close> and \<^verbatim>\<open>datetime.utcnow() - timedelta(hours=h)\<close>.
\<close>

definition since_minutes :: "int \<Rightarrow> int \<Rightarrow> string + int" where
  "since_minutes now m =
     (case py_timedelta (m * 60000000) of Inl e \<Rightarrow> Inl e | Inr d \<Rightarrow> datetime_minus now d)"

definition since_hours :: "int \<Rightarrow> int \<Rightarrow> string + int" where
  "since_hours now hrs =
     (case py_timedelta (hrs * 3600000000) of Inl e \<Rightarrow> Inl e | Inr d \<Rightarrow> datetime_minus now d)"

text \<open>
  The dict returned by \<^verbatim>\<open>get_host_summary\<close>: the keys it sets itself, and the columns of
  the row (\<open>None\<close> in the fallback dict of the \<^verbatim>\<open>else\<close> branch, which has no such keys).
\<close>

record host_summary =
  summary_host :: string
  hours_analyzed :: rat
  minutes_analyzed :: rat
  summary_total_pings :: nat
  uptime_percentage :: rat
  summary_columns :: "summary_row option"

text \<open>
  \<^verbatim>\<open>get_host_summary\<close>. Every exception of the body is raised again by the handler
  \<^verbatim>\<open>except Exception ... raise\<close>, so it is the \<open>Inl\<close> result.
\<close>

definition get_host_summary ::
  "database \<Rightarrow> int \<Rightarrow> string \<Rightarrow> int option \<Rightarrow> int option \<Rightarrow> string + host_summary" where
  "get_host_summary db now h hours minutes =
     (case (case minutes of
              Some m \<Rightarrow>
                (case since_minutes now m of
                   Inl e \<Rightarrow> Inl e
                 | Inr since_time \<Rightarrow> Inr (since_time, py_round2 (of_int m / 60), of_int m))
            | None \<Rightarrow>
                (let hrs = (case hours of None \<Rightarrow> 24 | Some x \<Rightarrow> x)
                 in case since_hours now hrs of
                      Inl e \<Rightarrow> Inl e
                    | Inr since_time \<Rightarrow> Inr (since_time, of_int hrs, of_int (hrs * 60)))) of
        Inl e \<Rightarrow> Inl e
      | Inr (since_time, time_analyzed_hours, time_analyzed_minutes) \<Rightarrow>
          (case host_summary_query db h since_time of
             Inl e \<Rightarrow> Inl e
           | Inr (Some row) \<Rightarrow>
               Inr \<lparr>summary_host = h,
                    hours_analyzed = time_analyzed_hours,
                    minutes_analyzed = time_analyzed_minutes,
                    summary_total_pings = total_pings row,
                    uptime_percentage =
                      (if total_pings row > 0 then 100 - packet_loss_rate row else 0),
                    summary_columns = Some row\<rparr>
           | Inr None \<Rightarrow>
               Inr \<lparr>summary_host = h,
                    hours_analyzed = time_analyzed_hours,
                    minutes_analyzed = time_analyzed_minutes,
                    summary_total_pings = 0,
                    uptime_percentage = 0,
                    summary_columns = None\<rparr>))"

text \<open>
  \<^verbatim>\<open>get_latest_metrics_by_host\<close>: for each host the row with the greatest timestamp
  (among equal timestamps, the one inserted first).
\<close>

fun latest_row :: "ping_metric_row list \<Rightarrow> ping_metric_row option" where
  "latest_row [] = None"
| "latest_row (r # rs) =
     (case latest_row rs of
        None \<Rightarrow> Some r
      | Some r' \<Rightarrow> if row_timestamp r < row_timestamp r' then Some r' else Some r)"

definition get_latest_metrics_by_host ::
  "database \<Rightarrow> string + (string \<rightharpoonup> ping_metric_row)" where
  "get_latest_metrics_by_host db =
     (if \<not> pool db then Inl ''Database pool not initialized''
      else Inr (\<lambda>h. latest_row (filter (\<lambda>r. target_host r = h) (table_rows db))))"

section \<open>The WebSocket manager and the command handler\<close>

text \<open>
  \<^verbatim>\<open>WebSocketManager\<close>. The dict \<^verbatim>\<open>active_connections\<close> is an association list in
  insertion order; the key \<^verbatim>\<open>conn_N\<close> is modelled by the number \<open>N\<close>.
\<close>

record websocket_manager =
  active_connections :: "(nat \<times> client) list"
  connection_counter :: nat

definition connect ::
  "client \<Rightarrow> websocket_manager \<times> ping_monitor \<Rightarrow> nat \<times> websocket_manager \<times> ping_monitor" where
  "connect ws ms =
     (let m = fst ms; s = snd ms;
          connection_id = connection_counter m + 1
      in (connection_id,
          m\<lparr>connection_counter := connection_id,
            active_connections :=
              (if connection_id \<in> fst ` set (active_connections m)
               then map (\<lambda>(k, v). if k = connection_id then (k, ws) else (k, v))
                        (active_connections m)
               else active_connections m @ [(connection_id, ws)])\<rparr>,
          add_websocket_client ws s))"

definition disconnect ::
  "nat \<Rightarrow> client \<Rightarrow> websocket_manager \<times> ping_monitor \<Rightarrow> websocket_manager \<times> ping_monitor" where
  "disconnect connection_id ws ms =
     (let m = fst ms; s = snd ms
      in ((if connection_id \<in> fst ` set (active_connections m)
           then m\<lparr>active_connections :=
                    filter (\<lambda>kv. fst kv \<noteq> connection_id) (active_connections m)\<rparr>
           else m),
          remove_websocket_client ws s))"

text \<open>
  The first loop of \<^verbatim>\<open>WebSocketManager.broadcast\<close>: the sends made and
  \<^verbatim>\<open>disconnected_connections\<close>.
\<close>

fun broadcast_loop ::
  "(client \<Rightarrow> envelope \<Rightarrow> string option) \<Rightarrow> envelope \<Rightarrow> (nat \<times> client) list
     \<Rightarrow> attempt list \<times> (nat \<times> client) list" where
  "broadcast_loop send_json message [] = ([], [])"
| "broadcast_loop send_json message ((connection_id, ws) # rest) =
     (let (sent, disconnected_connections) = broadcast_loop send_json message rest
      in case send_json ws message of
           None \<Rightarrow> ((ws, message, None) # sent, disconnected_connections)
         | Some e \<Rightarrow> ((ws, message, Some e) # sent,
                      (connection_id, ws) # disconnected_connections))"

definition broadcast ::
  "(client \<Rightarrow> envelope \<Rightarrow> string option) \<Rightarrow> envelope \<Rightarrow> websocket_manager \<times> ping_monitor
     \<Rightarrow> (websocket_manager \<times> ping_monitor) \<times> attempt list" where
  "broadcast send_json message ms =
     (let (sent, disconnected_connections) =
            broadcast_loop send_json message (active_connections (fst ms))
      in (fold (\<lambda>(connection_id, ws). disconnect connection_id ws) disconnected_connections ms,
          sent))"

text \<open>
  A decoded inbound message: the keys read by the handler. A key that is absent (or
  \<^verbatim>\<open>null\<close>) is \<open>None\<close>; \<^verbatim>\<open>host\<close> is taken to be a string.
\<close>

record inbound =
  msg_type :: "string option"
  msg_host :: "string option"
  msg_hours :: "int option"
  msg_minutes :: "int option"

text \<open>The dict passed to \<^verbatim>\<open>websocket.send_json\<close> by the handler, by its \<^verbatim>\<open>type\<close>.\<close>

datatype outbound =
    Pong "measurement option"
  | Status_response bool "string list" int "string \<rightharpoonup> measurement"
  | Latest_metrics_response "string \<rightharpoonup> ping_metric_row"
  | Subscription_confirmed string string
  | Host_summary_response string host_summary
  | Error_message string

text \<open>
  \<^verbatim>\<open>send_json\<close> encodes its argument with \<^verbatim>\<open>json.dumps\<close>, which raises \<^verbatim>\<open>TypeError\<close> on a
  \<^verbatim>\<open>datetime\<close> value. Every row of the table holds two (\<^verbatim>\<open>timestamp\<close>, \<^verbatim>\<open>created_at\<close>);
  a summary holds one where \<^verbatim>\<open>first_ping\<close> or \<^verbatim>\<open>last_ping\<close> is not null.
\<close>

definition datetime_not_serializable :: string where
  "datetime_not_serializable = ''Object of type datetime is not JSON serializable''"

definition summary_has_datetime :: "host_summary \<Rightarrow> bool" where
  "summary_has_datetime sm =
     (case summary_columns sm of
        None \<Rightarrow> False
      | Some row \<Rightarrow> first_ping row \<noteq> None \<or> last_ping row \<noteq> None)"

text \<open>
  \<^verbatim>\<open>handle_websocket_message\<close>: the state after the call and the reply sent. The state is
  the manager, the monitor and the database, the three objects the handler can reach.
  \<open>Pong None\<close> is the reply with timestamp \<^verbatim>\<open>"unknown"\<close>. The test \<^verbatim>\<open>if host:\<close> holds
  for a host that is present and not the empty string.

  In the branches \<^verbatim>\<open>get_latest_metrics\<close> and \<^verbatim>\<open>get_host_summary\<close> the \<^verbatim>\<open>send_json\<close> of the
  response stands inside the \<^verbatim>\<open>try\<close>: when the response holds a \<^verbatim>\<open>datetime\<close> the
  \<^verbatim>\<open>TypeError\<close> is caught and the reply is the \<^verbatim>\<open>error\<close> message of the handler. The dict
  of latest metrics holds a row, and so a \<^verbatim>\<open>datetime\<close>, exactly when the table is not
  empty.
\<close>

definition handle_websocket_message ::
  "int \<Rightarrow> inbound \<Rightarrow> websocket_manager \<times> ping_monitor \<times> database
     \<Rightarrow> (websocket_manager \<times> ping_monitor \<times> database) \<times> outbound" where
  "handle_websocket_message now message st =
     (let s = fst (snd st); db = snd (snd st); message_type = msg_type message
      in if message_type = Some ''ping'' then
           (st, Pong (latest_results s ''timestamp''))
         else if message_type = Some ''get_status'' then
           (st, Status_response (is_running s) (get_target_hosts s) (ping_interval s)
                  (get_latest_results s))
         else if message_type = Some ''get_latest_metrics'' then
           (case get_latest_metrics_by_host db of
              Inr latest_metrics \<Rightarrow>
                if table_rows db = [] then (st, Latest_metrics_response latest_metrics)
                else (st, Error_message (''Failed to get latest metrics: '' @
                            datetime_not_serializable))
            | Inl e \<Rightarrow> (st, Error_message (''Failed to get latest metrics: '' @ e)))
         else if message_type = Some ''subscribe_host'' then
           (case msg_host message of
              Some h \<Rightarrow>
                if h \<noteq> [] then
                  (st, Subscription_confirmed h (''Subscribed to updates for '' @ h))
                else (st, Error_message ''Host parameter required for subscription'')
            | None \<Rightarrow> (st, Error_message ''Host parameter required for subscription''))
         else if message_type = Some ''get_host_summary'' then
           (case msg_host message of
              Some h \<Rightarrow>
                if h \<noteq> [] then
                  (case (if msg_minutes message \<noteq> None
                         then get_host_summary db now h None (msg_minutes message)
                         else get_host_summary db now h (msg_hours message) None) of
                     Inr summary \<Rightarrow>
                       if summary_has_datetime summary then
                         (st, Error_message (''Failed to get host summary: '' @
                                datetime_not_serializable))
                       else (st, Host_summary_response h summary)
                   | Inl e \<Rightarrow> (st, Error_message (''Failed to get host summary: '' @ e)))
                else (st, Error_message ''Host parameter required for summary'')
            | None \<Rightarrow> (st, Error_message ''Host parameter required for summary''))
         else
           (st, Error_message (''Unknown message type: '' @
                  (case message_type of None \<Rightarrow> ''None'' | Some t \<Rightarrow> t))))"

section \<open>Auxiliary notions and example data\<close>

text \<open>
  Whether the loop body of the broadcast sends to a client, given the flag
  \<^verbatim>\<open>is_dns_update\<close>.
\<close>

definition wants :: "bool \<Rightarrow> client \<Rightarrow> bool" where
  "wants is_dns_update c = (if is_dns_update then on_dns_topic c else on_full_topic c)"

text \<open>The cache after the entries of a list of measurements have been written, in order.\<close>

definition cache_all :: "measurement list \<Rightarrow> (string \<rightharpoonup> measurement) \<Rightarrow> (string \<rightharpoonup> measurement)" where
  "cache_all rs m = fold (\<lambda>r c. c(host r \<mapsto> r)) rs m"

text \<open>
  Three registered channels, as the endpoints register them (no \<^verbatim>\<open>path\<close> attribute): two
  accepted by the full-topic endpoint and one by the DNS-only endpoint. On \<open>send_ok\<close> no
  send raises; on \<open>send_fails_full\<close> every send to \<open>full_client\<close> raises.
\<close>

definition full_client :: client where
  "full_client = \<lparr>client_id = 1, accepted_by = Ping_status, path = None\<rparr>"

definition dns_client :: client where
  "dns_client = \<lparr>client_id = 2, accepted_by = Dns_status, path = None\<rparr>"

definition plain_client :: client where
  "plain_client = \<lparr>client_id = 3, accepted_by = Ping_status, path = None\<rparr>"

definition send_ok :: "client \<Rightarrow> envelope \<Rightarrow> string option" where
  "send_ok c d = None"

definition send_fails_full :: "client \<Rightarrow> envelope \<Rightarrow> string option" where
  "send_fails_full c d = (if c = full_client then Some ''connection closed'' else None)"

text \<open>Measurements: a DNS resolver that answered, and two other hosts.\<close>

definition dns_measurement :: measurement where
  "dns_measurement =
     \<lparr>host = ''8.8.8.8'', response_time_ms = Some 12, packet_loss = False,
      error_message = None, timestamp = 0\<rparr>"

definition web_measurement :: measurement where
  "web_measurement =
     \<lparr>host = ''a.com'', response_time_ms = None, packet_loss = True,
      error_message = Some ''Ping timeout or host unreachable'', timestamp = 0\<rparr>"

definition other_measurement :: measurement where
  "other_measurement =
     \<lparr>host = ''b.com'', response_time_ms = Some 20, packet_loss = False,
      error_message = None, timestamp = 0\<rparr>"

text \<open>
  Three behaviours of \<^verbatim>\<open>ping\<close>: no reply, a reply after 12.345 ms, and the \<^verbatim>\<open>False\<close>
  returned for a host name that does not resolve.
\<close>

definition ping_timeout :: "string \<Rightarrow> nat \<Rightarrow> ping_outcome" where
  "ping_timeout h t = Returns_None"

definition ping_unresolved :: "string \<Rightarrow> nat \<Rightarrow> ping_outcome" where
  "ping_unresolved h t = Returns_False"

definition ping_fast :: "string \<Rightarrow> nat \<Rightarrow> ping_outcome" where
  "ping_fast h t = Returns_delay (12345 / 1000)"

text \<open>Monitors, a manager and a database to run the operations on.\<close>

definition demo_clients :: ping_monitor where
  "demo_clients = (init_monitor 1)\<lparr>websocket_clients := [full_client, dns_client, plain_client]\<rparr>"

definition demo_monitor :: ping_monitor where
  "demo_monitor =
     (init_monitor 1)\<lparr>latest_results :=
        [''google.com'' \<mapsto> ping_host ping_timeout 0 ''google.com'' 3,
         ''8.8.8.8'' \<mapsto> ping_host ping_fast 0 ''8.8.8.8'' 3]\<rparr>"

definition demo_manager :: websocket_manager where
  "demo_manager =
     \<lparr>active_connections = [(1, full_client), (2, dns_client), (3, plain_client)],
      connection_counter = 3\<rparr>"

definition demo_db :: database where
  "demo_db = \<lparr>pool = True, table_rows = [], next_id = 1\<rparr>"

text \<open>A database on which every insert for \<^verbatim>\<open>a.com\<close> raises.\<close>

definition fault_a_com :: "ping_metric_create \<Rightarrow> string option" where
  "fault_a_com metric = (if target_host metric = ''a.com'' then Some ''connection lost'' else None)"

text \<open>Two \<^verbatim>\<open>subscribe_host\<close> messages, without and with a host.\<close>

definition subscribe_without_host :: inbound where
  "subscribe_without_host =
     \<lparr>msg_type = Some ''subscribe_host'', msg_host = None, msg_hours = None, msg_minutes = None\<rparr>"

definition subscribe_a_com :: inbound where
  "subscribe_a_com =
     \<lparr>msg_type = Some ''subscribe_host'', msg_host = Some ''a.com'', msg_hours = None,
      msg_minutes = None\<rparr>"

text \<open>
  Ten stored rows for \<^verbatim>\<open>8.8.8.8\<close>, one a minute, of which the third and the seventh
  have \<^verbatim>\<open>packet_loss = TRUE\<close>.
\<close>

definition fixture_row :: "nat \<Rightarrow> rat option \<Rightarrow> bool \<Rightarrow> ping_metric_row" where
  "fixture_row i t lost =
     \<lparr>target_host = ''8.8.8.8'', metric_response_time_ms = t, metric_packet_loss = lost,
      metric_error_message = (if lost then Some ''Ping timeout or host unreachable'' else None),
      row_id = i, row_timestamp = int i * 60000000, created_at = int i * 60000000\<rparr>"

definition fixture_db :: database where
  "fixture_db =
     \<lparr>pool = True,
      table_rows =
        [fixture_row 1 (Some 10) False, fixture_row 2 (Some 12) False, fixture_row 3 None True,
         fixture_row 4 (Some 11) False, fixture_row 5 (Some 15) False, fixture_row 6 (Some 9) False,
         fixture_row 7 None True, fixture_row 8 (Some 14) False, fixture_row 9 (Some 13) False,
         fixture_row 10 (Some 10) False],
      next_id = 11\<rparr>"

section \<open>Lemmas about the operations\<close>

subsection \<open>The registry stays free of duplicates\<close>

lemma distinct_add_target_host:
  "distinct (target_hosts s) \<Longrightarrow> distinct (target_hosts (add_target_host h s))"
  by (simp add: add_target_host_def)

lemma distinct_remove_target_host:
  "distinct (target_hosts s) \<Longrightarrow> distinct (target_hosts (remove_target_host h s))"
  by (simp add: remove_target_host_def Let_def)

lemma distinct_init_monitor: "distinct (target_hosts (init_monitor i))"
  by (simp add: init_monitor_def)

lemma distinct_fold_add:
  "distinct (target_hosts s) \<Longrightarrow> distinct (target_hosts (fold add_target_host hs s))"
  by (induction hs arbitrary: s) (simp_all add: distinct_add_target_host)

lemma remove1_distinct_filter:
  "distinct xs \<Longrightarrow> remove1 x xs = filter (\<lambda>y. y \<noteq> x) xs"
proof -
  assume "distinct xs"
  then have "remove1 x xs = removeAll x xs"
    by (rule distinct_remove1_removeAll)
  also have "\<dots> = filter (\<lambda>y. y \<noteq> x) xs"
    by (induction xs) auto
  finally show ?thesis .
qed

subsection \<open>What a broadcast sends and whom it removes\<close>

text \<open>
  A client without a \<^verbatim>\<open>path\<close> attribute is treated as being on the full topic, whichever
  endpoint accepted it.
\<close>

lemma no_path_topics:
  assumes "path c = None"
  shows "on_full_topic c" and "\<not> on_dns_topic c"
  using assms by (simp_all add: on_full_topic_def on_dns_topic_def client_path_def)

lemma topics_of_fixtures:
  "on_full_topic full_client" "\<not> on_dns_topic full_client"
  "on_full_topic dns_client" "\<not> on_dns_topic dns_client"
  "on_full_topic plain_client" "\<not> on_dns_topic plain_client"
  by (simp_all add: no_path_topics full_client_def dns_client_def plain_client_def)

lemma fixtures_differ:
  "full_client \<noteq> dns_client" "full_client \<noteq> plain_client" "dns_client \<noteq> plain_client"
  by (simp_all add: full_client_def dns_client_def plain_client_def)

lemma try_send_eq:
  "try_send send_json data b c =
     (if wants b c then Some (case send_json c data of Some e \<Rightarrow> Inl e | None \<Rightarrow> Inr ()) else None)"
  by (simp add: try_send_def wants_def)

lemma send_loop_sent:
  "fst (send_loop send_json data b cs) =
     map (\<lambda>c. (c, data, send_json c data)) (filter (wants b) cs)"
  by (induction cs) (auto simp: try_send_eq split: prod.splits option.splits sum.splits)

lemma send_loop_removed:
  "snd (send_loop send_json data b cs) =
     filter (\<lambda>c. wants b c \<and> send_json c data \<noteq> None) cs"
  by (induction cs) (auto simp: try_send_eq split: prod.splits option.splits sum.splits)

lemma broadcast_sent:
  "snd (broadcast_to_websockets send_json data0 s) =
     map (\<lambda>c. (c, fst (dns_classify data0), send_json c (fst (dns_classify data0))))
         (filter (wants (snd (dns_classify data0))) (websocket_clients s))"
  using send_loop_sent [of send_json "fst (dns_classify data0)" "snd (dns_classify data0)" "websocket_clients s"]
  by (auto simp: broadcast_to_websockets_def split: prod.splits)

lemma broadcast_clients:
  "websocket_clients (fst (broadcast_to_websockets send_json data0 s)) =
     filter (\<lambda>c. \<not> (wants (snd (dns_classify data0)) c
                     \<and> send_json c (fst (dns_classify data0)) \<noteq> None))
            (websocket_clients s)"
  using send_loop_removed [of send_json "fst (dns_classify data0)" "snd (dns_classify data0)" "websocket_clients s"]
  by (auto simp: broadcast_to_websockets_def split: prod.splits intro: filter_cong)

lemma broadcast_frame:
  "target_hosts (fst (broadcast_to_websockets send_json data0 s)) = target_hosts s"
  "latest_results (fst (broadcast_to_websockets send_json data0 s)) = latest_results s"
  "is_running (fst (broadcast_to_websockets send_json data0 s)) = is_running s"
  "ping_interval (fst (broadcast_to_websockets send_json data0 s)) = ping_interval s"
  by (auto simp: broadcast_to_websockets_def split: prod.splits)

lemma dns_classify_cycle:
  "dns_classify (Ping_update rs ts) =
     (if \<exists>r\<in>set rs. host r \<in> set dns_hosts
      then (Dns_status_update (filter (\<lambda>r. host r \<in> set dns_hosts) rs) ts, True)
      else (Ping_update rs ts, False))"
  by (auto simp: dns_classify_def Let_def filter_empty_conv)

text \<open>
  With registered clients only (none has a \<^verbatim>\<open>path\<close> attribute): a cycle with a DNS-set host
  among its results sends nothing at all, and a cycle without one sends the general
  envelope to every client.
\<close>

lemma dns_cycle_sends_nothing:
  assumes "\<forall>c\<in>set (websocket_clients s). path c = None"
    and "\<exists>r\<in>set rs. host r \<in> set dns_hosts"
  shows "snd (broadcast_to_websockets send_json (Ping_update rs ts) s) = []"
proof -
  from assms(1) have "filter (wants True) (websocket_clients s) = []"
    by (auto simp: filter_empty_conv wants_def no_path_topics)
  with assms(2) show ?thesis
    by (simp add: broadcast_sent dns_classify_cycle)
qed

lemma plain_cycle_sends_to_all:
  assumes "\<forall>c\<in>set (websocket_clients s). path c = None"
    and "\<forall>r\<in>set rs. host r \<notin> set dns_hosts"
  shows "snd (broadcast_to_websockets send_json (Ping_update rs ts) s) =
           map (\<lambda>c. (c, Ping_update rs ts, send_json c (Ping_update rs ts)))
               (websocket_clients s)"
proof -
  from assms(1) have "filter (wants False) (websocket_clients s) = websocket_clients s"
    by (auto simp: filter_id_conv wants_def no_path_topics)
  with assms(2) show ?thesis
    by (simp add: broadcast_sent dns_classify_cycle)
qed

lemma dns_classify_hosts:
  "snd (dns_classify data) \<Longrightarrow> set (envelope_hosts (fst (dns_classify data))) \<subseteq> set dns_hosts"
  by (auto simp: dns_classify_def Let_def split: envelope.splits option.splits if_splits)

lemma dns_classify_needs_dns_host:
  "snd (dns_classify data) \<Longrightarrow> set (envelope_hosts data) \<inter> set dns_hosts \<noteq> {}"
  by (auto simp: dns_classify_def Let_def filter_empty_conv split: envelope.splits option.splits if_splits)

lemma fold_disconnect_connections:
  "active_connections (fst (fold (\<lambda>(connection_id, ws). disconnect connection_id ws) disc ms)) =
     filter (\<lambda>kv. fst kv \<notin> fst ` set disc) (active_connections (fst ms))"
proof (induction disc arbitrary: ms)
  case Nil
  then show ?case by simp
next
  case (Cons d disc)
  have "active_connections (fst (disconnect (fst d) (snd d) ms)) =
          filter (\<lambda>kv. fst kv \<noteq> fst d) (active_connections (fst ms))"
  proof (cases "fst d \<in> fst ` set (active_connections (fst ms))")
    case True
    then show ?thesis by (simp add: disconnect_def Let_def)
  next
    case False
    then have "filter (\<lambda>kv. fst kv \<noteq> fst d) (active_connections (fst ms)) =
                 active_connections (fst ms)"
      by (intro filter_True) (metis imageI)
    with False show ?thesis by (simp add: disconnect_def Let_def)
  qed
  with Cons.IH [of "disconnect (fst d) (snd d) ms"] show ?case
    by (cases d) (auto intro: filter_cong)
qed

lemma fold_disconnect_clients:
  "websocket_clients (snd (fold (\<lambda>(connection_id, ws). disconnect connection_id ws) disc ms)) =
     filter (\<lambda>c. c \<notin> snd ` set disc) (websocket_clients (snd ms))"
proof (induction disc arbitrary: ms)
  case Nil
  then show ?case by simp
next
  case (Cons d disc)
  have "websocket_clients (snd (disconnect (fst d) (snd d) ms)) =
          filter (\<lambda>c. c \<noteq> snd d) (websocket_clients (snd ms))"
    by (simp add: disconnect_def Let_def remove_websocket_client_def removeAll_filter_not_eq
          neq_commute)
  with Cons.IH [of "disconnect (fst d) (snd d) ms"] show ?case
    by (cases d) (auto intro: filter_cong)
qed

lemma broadcast_loop_eq:
  "broadcast_loop send_json message conns =
     (map (\<lambda>kv. (snd kv, message, send_json (snd kv) message)) conns,
      filter (\<lambda>kv. send_json (snd kv) message \<noteq> None) conns)"
  by (induction conns) (auto split: prod.splits option.splits)

lemma manager_broadcast_sent:
  "snd (broadcast send_json message ms) =
     map (\<lambda>kv. (snd kv, message, send_json (snd kv) message)) (active_connections (fst ms))"
  by (simp add: broadcast_def broadcast_loop_eq)

lemma manager_broadcast_connections:
  "active_connections (fst (fst (broadcast send_json message ms))) =
     filter (\<lambda>kv. fst kv \<notin> fst ` {kv \<in> set (active_connections (fst ms)).
                                       send_json (snd kv) message \<noteq> None})
            (active_connections (fst ms))"
  by (simp add: broadcast_def broadcast_loop_eq fold_disconnect_connections)

lemma manager_broadcast_clients:
  "websocket_clients (snd (fst (broadcast send_json message ms))) =
     filter (\<lambda>c. c \<notin> snd ` {kv \<in> set (active_connections (fst ms)).
                                  send_json (snd kv) message \<noteq> None})
            (websocket_clients (snd ms))"
  by (simp add: broadcast_def broadcast_loop_eq fold_disconnect_clients)

subsection \<open>The save phase and the cycle\<close>

lemma save_loop_all_ok:
  assumes "pool db" and "\<forall>r\<in>set pre. fault (metric_of r) = None"
  shows "\<exists>db'. save_loop fault now (pre @ rest) (s, db) =
           save_loop fault now rest (s\<lparr>latest_results := cache_all pre (latest_results s)\<rparr>, db')
         \<and> pool db'
         \<and> map target_host (table_rows db') = map target_host (table_rows db) @ map host pre
         \<and> length (table_rows db') = length (table_rows db) + length pre"
  using assms
proof (induction pre arbitrary: s db)
  case Nil
  then show ?case by (intro exI [of _ db]) (simp add: cache_all_def)
next
  case (Cons r pre)
  define db1 where
    "db1 = db\<lparr>table_rows := table_rows db @
                   [\<lparr>target_host = host r, metric_response_time_ms = response_time_ms r,
                     metric_packet_loss = packet_loss r,
                     metric_error_message = error_message r,
                     row_id = next_id db, row_timestamp = now, created_at = now\<rparr>],
                next_id := next_id db + 1\<rparr>"
  let ?s1 = "s\<lparr>latest_results := (latest_results s)(host r \<mapsto> r)\<rparr>"
  from Cons.prems have ins: "insert_ping_metric fault now db (metric_of r) = Inr (next_id db, db1)"
    by (simp add: insert_ping_metric_def metric_of_def db1_def)
  have p1: "pool db1"
    and r1: "map target_host (table_rows db1) = map target_host (table_rows db) @ [host r]"
    and n1: "length (table_rows db1) = length (table_rows db) + 1"
    using Cons.prems(1) by (simp_all add: db1_def)
  from Cons.prems have "\<forall>r\<in>set pre. fault (metric_of r) = None" by simp
  from Cons.IH [OF p1 this, of ?s1] obtain db' where
    "save_loop fault now (pre @ rest) (?s1, db1) =
       save_loop fault now rest (?s1\<lparr>latest_results := cache_all pre (latest_results ?s1)\<rparr>, db')"
    "pool db'"
    "map target_host (table_rows db') = map target_host (table_rows db1) @ map host pre"
    "length (table_rows db') = length (table_rows db1) + length pre"
    by blast
  with ins r1 n1 show ?case
    by (intro exI [of _ db']) (simp add: cache_all_def)
qed

lemma save_loop_frame:
  "target_hosts (fst (save_loop fault now rs (s, db))) = target_hosts s
   \<and> websocket_clients (fst (save_loop fault now rs (s, db))) = websocket_clients s
   \<and> is_running (fst (save_loop fault now rs (s, db))) = is_running s
   \<and> ping_interval (fst (save_loop fault now rs (s, db))) = ping_interval s"
  by (induction rs arbitrary: s db) (auto split: sum.splits)

lemma save_ping_results_frame:
  "websocket_clients (fst (save_ping_results fault now rs (s, db))) = websocket_clients s"
  "target_hosts (fst (save_ping_results fault now rs (s, db))) = target_hosts s"
  using save_loop_frame [of fault now rs s db]
  by (auto simp: save_ping_results_def split: prod.splits option.splits)

lemma monitoring_cycle_sent:
  "snd (snd (snd (monitoring_cycle ping fault send_json now (s, db)))) =
     snd (broadcast_to_websockets send_json (Ping_update (ping_all_hosts ping now s) (Some now)) s)"
  by (simp add: monitoring_cycle_def Let_def split_beta broadcast_sent save_ping_results_frame)

lemma monitoring_cycle_target_hosts:
  "target_hosts (fst (monitoring_cycle ping fault send_json now (s, db))) = target_hosts s"
  by (simp add: monitoring_cycle_def Let_def split_beta broadcast_frame save_ping_results_frame)

subsection \<open>The command handler reads the state only\<close>

lemma handle_websocket_message_state:
  "fst (handle_websocket_message now message st) = st"
  by (simp add: handle_websocket_message_def Let_def split: option.splits sum.splits)

text \<open>
  A summary that is returned comes from at least one row, so it holds a \<^verbatim>\<open>datetime\<close>; the
  dict of latest metrics is empty exactly when the table is.
\<close>

lemma get_host_summary_has_datetime:
  assumes "get_host_summary db now h hours minutes = Inr sm"
  shows "summary_has_datetime sm"
  using assms
  by (auto simp: get_host_summary_def host_summary_query_def summary_has_datetime_def
                 sql_min_def Let_def
           split: option.splits if_splits sum.splits list.splits)

lemma host_summary_response_never_sent:
  "snd (handle_websocket_message now message st) \<noteq> Host_summary_response h sm"
  by (auto simp: handle_websocket_message_def Let_def get_host_summary_has_datetime
           split: option.splits sum.splits if_splits)

lemma get_latest_metrics_empty_iff:
  assumes "get_latest_metrics_by_host db = Inr latest_metrics"
  shows "latest_metrics = Map.empty \<longleftrightarrow> table_rows db = []"
proof
  assume e: "latest_metrics = Map.empty"
  show "table_rows db = []"
  proof (cases "table_rows db")
    case Nil
    then show ?thesis .
  next
    case (Cons r rs)
    have "latest_row (filter (\<lambda>x. target_host x = target_host r) (table_rows db)) \<noteq> None"
      unfolding Cons by (simp split: option.splits)
    moreover from assms e
    have "latest_row (filter (\<lambda>x. target_host x = target_host r) (table_rows db)) = None"
      by (auto simp: get_latest_metrics_by_host_def fun_eq_iff split: if_splits)
    ultimately show ?thesis by simp
  qed
next
  assume "table_rows db = []"
  with assms show "latest_metrics = Map.empty"
    by (auto simp: get_latest_metrics_by_host_def split: if_splits)
qed

subsection \<open>What the probe returns\<close>

text \<open>
  Whatever \<^verbatim>\<open>ping\<close> does, \<^verbatim>\<open>ping_host\<close> returns a measurement for the host; packet loss
  comes with an error message and no packet loss with a response time; a \<^verbatim>\<open>None\<close> return
  and an exception of \<^verbatim>\<open>ping\<close> give packet loss.
\<close>

lemma ping_host_consistent:
  "(\<exists>m. ping_host ping now h t = m \<and> host m = h \<and> timestamp m = now)
   \<and> (packet_loss (ping_host ping now h t) \<longrightarrow> error_message (ping_host ping now h t) \<noteq> None)
   \<and> (\<not> packet_loss (ping_host ping now h t) \<longrightarrow> response_time_ms (ping_host ping now h t) \<noteq> None)
   \<and> (ping h t = Returns_None \<longrightarrow>
        packet_loss (ping_host ping now h t)
        \<and> error_message (ping_host ping now h t) = Some ''Ping timeout or host unreachable'')
   \<and> (\<forall>e. ping h t = Raises e \<longrightarrow>
        packet_loss (ping_host ping now h t) \<and> error_message (ping_host ping now h t) = Some e)"
  by (cases "ping h t") (simp_all add: ping_host_def)

subsection \<open>What the host summary computes\<close>

text \<open>
  Every summary the function returns comes from a row with a positive count, and its
  uptime percentage is 100 minus the lost fraction.
\<close>

lemma get_host_summary_uptime:
  assumes "get_host_summary db now h hours minutes = Inr sm"
  shows "\<exists>row. summary_columns sm = Some row \<and> 0 < total_pings row
           \<and> packet_loss_rate row = of_nat (packet_losses row) / of_nat (total_pings row)
           \<and> uptime_percentage sm = 100 - of_nat (packet_losses row) / of_nat (total_pings row)"
  using assms
  by (auto simp: get_host_summary_def host_summary_query_def Let_def
           split: option.splits if_splits sum.splits)

section \<open>The claims\<close>

subsection \<open>C1: uptime percentage of the host summary\<close>

text \<open>
  Claim C1 asks that \<^verbatim>\<open>get_host_summary\<close> on ten stored measurements in the window, two
  of them with packet loss, returns \<^verbatim>\<open>uptime_percentage == 80.0\<close>. The query computes
  \<^verbatim>\<open>packet_loss_rate\<close> as the fraction \<open>2 / 10\<close> (the sibling query of
  \<^verbatim>\<open>get_metrics_stats\<close> multiplies the same quotient by 100), and the summary subtracts
  that fraction from 100. On the fixture, queried at minute 11 with \<^verbatim>\<open>minutes=120\<close>, the
  call counts 10 rows and 2 losses and returns an uptime percentage of \<open>499 / 5\<close>, that is
  99.8.
\<close>

theorem host_summary_uptime_fixture:
  "map_sum id summary_total_pings
      (get_host_summary fixture_db 660000000 ''8.8.8.8'' None (Some 120)) = Inr 10
   \<and> map_sum id (\<lambda>sm. map_option packet_losses (summary_columns sm))
      (get_host_summary fixture_db 660000000 ''8.8.8.8'' None (Some 120)) = Inr (Some 2)
   \<and> map_sum id uptime_percentage
      (get_host_summary fixture_db 660000000 ''8.8.8.8'' None (Some 120)) = Inr (499 / 5)"
  by (simp add: get_host_summary_def since_minutes_def py_timedelta_def datetime_minus_def
        host_summary_query_def fixture_db_def fixture_row_def Let_def)

subsection \<open>C2: an insert failure in the save phase\<close>

text \<open>
  Claim C2, as amended: when the insert of one measurement raises, the failure is logged
  and ends the save phase of that cycle. The measurements before it in the list have been
  inserted and written to the cache; the failing one and the ones after it are neither
  inserted nor cached. The cycle goes on to the broadcast phase, which sends what a
  broadcast of the full result list sends.
\<close>

theorem save_stops_at_first_failure:
  assumes "pool db"
    and "\<forall>r\<in>set pre. fault (metric_of r) = None"
    and "fault (metric_of m) = Some e"
  shows "latest_results (fst (save_ping_results fault now (pre @ m # post) (s, db)))
           = cache_all pre (latest_results s)
       \<and> map target_host (table_rows (fst (snd (save_ping_results fault now (pre @ m # post) (s, db)))))
           = map target_host (table_rows db) @ map host pre
       \<and> snd (snd (save_ping_results fault now (pre @ m # post) (s, db)))
           = [''Failed to save ping results: '' @ e]
       \<and> snd (snd (snd (monitoring_cycle ping fault send_json now (s, db))))
           = snd (broadcast_to_websockets send_json
                    (Ping_update (ping_all_hosts ping now s) (Some now)) s)"
proof -
  from save_loop_all_ok [OF assms(1,2), of now "m # post" s] obtain db' where
    l: "save_loop fault now (pre @ m # post) (s, db) =
       save_loop fault now (m # post) (s\<lparr>latest_results := cache_all pre (latest_results s)\<rparr>, db')"
    and p: "pool db'"
    and r: "map target_host (table_rows db') = map target_host (table_rows db) @ map host pre"
    by blast
  from p assms(3) have "insert_ping_metric fault now db' (metric_of m) = Inl e"
    by (simp add: insert_ping_metric_def)
  with l have "save_loop fault now (pre @ m # post) (s, db) =
      (s\<lparr>latest_results := cache_all pre (latest_results s)\<rparr>, db', Some e)"
    by simp
  with r show ?thesis
    by (simp add: save_ping_results_def monitoring_cycle_sent)
qed

text \<open>
  An instance for C2: the insert for \<^verbatim>\<open>a.com\<close>, second of three, raises; only the row and the
  cache entry of the first measurement are written.
\<close>

theorem save_stops_at_first_failure_witness:
  "pool demo_db
   \<and> fault_a_com (metric_of other_measurement) = None
   \<and> fault_a_com (metric_of web_measurement) = Some ''connection lost''
   \<and> latest_results (fst (save_ping_results fault_a_com 0
         [other_measurement, web_measurement, dns_measurement] (demo_clients, demo_db)))
       = [''b.com'' \<mapsto> other_measurement]
   \<and> map target_host (table_rows (fst (snd (save_ping_results fault_a_com 0
         [other_measurement, web_measurement, dns_measurement] (demo_clients, demo_db)))))
       = [''b.com'']
   \<and> snd (snd (save_ping_results fault_a_com 0
         [other_measurement, web_measurement, dns_measurement] (demo_clients, demo_db)))
       = [''Failed to save ping results: connection lost'']
   \<and> snd (snd (snd (monitoring_cycle ping_timeout fault_a_com send_ok 0 (demo_clients, demo_db))))
       = snd (broadcast_to_websockets send_ok
                (Ping_update (ping_all_hosts ping_timeout 0 demo_clients) (Some 0)) demo_clients)"
proof -
  have p: "pool demo_db"
    by (simp add: demo_db_def)
  have a: "\<forall>r\<in>set [other_measurement]. fault_a_com (metric_of r) = None"
    by (simp add: fault_a_com_def metric_of_def other_measurement_def)
  have b: "fault_a_com (metric_of web_measurement) = Some ''connection lost''"
    by (simp add: fault_a_com_def metric_of_def web_measurement_def)
  from save_stops_at_first_failure [OF p a b, of 0 "[dns_measurement]" demo_clients
         ping_timeout send_ok] p a b
  show ?thesis
    by (simp add: cache_all_def demo_clients_def init_monitor_def demo_db_def
          other_measurement_def)
qed

text \<open>
  C2 as first stated fails: the insert for \<^verbatim>\<open>b.com\<close> would succeed, but it comes after the
  failing insert for \<^verbatim>\<open>a.com\<close>, so no row is written and \<^verbatim>\<open>b.com\<close> gets no cache entry.
\<close>

theorem save_skips_later_measurements_counterexample:
  "fault_a_com (metric_of other_measurement) = None
   \<and> table_rows (fst (snd (save_ping_results fault_a_com 0
         [web_measurement, other_measurement] (demo_clients, demo_db)))) = []
   \<and> latest_results (fst (save_ping_results fault_a_com 0
         [web_measurement, other_measurement] (demo_clients, demo_db))) ''b.com'' = None"
  by (simp add: save_ping_results_def insert_ping_metric_def metric_of_def fault_a_com_def
        web_measurement_def other_measurement_def demo_clients_def demo_db_def init_monitor_def)

subsection \<open>C3: which subscriber is sent which envelope\<close>

text \<open>
  Claim C3 asks that in every broadcast of a cycle envelope each subscriber on the full
  topic is sent the general envelope with all the measurements, whether or not a DNS-set
  host was probed, and each subscriber on the DNS-only topic the derived envelope when one
  was. The docstring of \<^verbatim>\<open>broadcast_to_websockets\<close> promises a broadcast to all connected
  clients. The code does neither: with \<^verbatim>\<open>8.8.8.8\<close> and \<^verbatim>\<open>a.com\<close> probed it overwrites
  \<^verbatim>\<open>data\<close> by the derived dict and sets \<^verbatim>\<open>is_dns_update\<close>; the two subscribers of the full
  topic fail the test \<^verbatim>\<open>not is_dns_update\<close>, and the subscriber of the DNS-only topic, having
  no \<^verbatim>\<open>path\<close> attribute, fails the test for \<^verbatim>\<open>/api/ws/dns-status\<close>. No send is made.
\<close>

theorem dns_cycle_reaches_no_subscriber:
  "accepted_by full_client = Ping_status
   \<and> accepted_by dns_client = Dns_status
   \<and> websocket_clients demo_clients = [full_client, dns_client, plain_client]
   \<and> host dns_measurement \<in> set dns_hosts
   \<and> snd (broadcast_to_websockets send_ok
            (Ping_update [dns_measurement, web_measurement] (Some 0)) demo_clients) = []"
proof -
  have "accepted_by full_client = Ping_status" and "accepted_by dns_client = Dns_status"
    by (simp_all add: full_client_def dns_client_def)
  moreover have "websocket_clients demo_clients = [full_client, dns_client, plain_client]"
    by (simp add: demo_clients_def)
  moreover have "host dns_measurement \<in> set dns_hosts"
    by (simp add: dns_measurement_def dns_hosts_def)
  moreover have "snd (broadcast_to_websockets send_ok
            (Ping_update [dns_measurement, web_measurement] (Some 0)) demo_clients) = []"
    by (simp add: broadcast_sent dns_classify_cycle wants_def topics_of_fixtures
          demo_clients_def init_monitor_def dns_measurement_def web_measurement_def
          dns_hosts_def)
  ultimately show ?thesis by simp
qed

subsection \<open>C4: what a DNS-only subscriber can be sent\<close>

text \<open>
  Claim C4 asks that a subscriber of the DNS-only topic is never sent a payload with a
  host outside the DNS-resolver set, and is sent nothing in a cycle without a DNS-set
  host. The code tells the topic from the attribute \<^verbatim>\<open>path\<close>, which no registered channel
  has, and falls back to \<^verbatim>\<open>/api/ws/ping-status\<close>: in a cycle that probed only \<^verbatim>\<open>a.com\<close> the
  subscriber accepted by the DNS-only endpoint is sent the general envelope with the
  measurement of \<^verbatim>\<open>a.com\<close>, like the subscribers of the full topic.
\<close>

theorem dns_subscriber_sent_general_envelope:
  "accepted_by dns_client = Dns_status
   \<and> dns_client \<in> set (websocket_clients demo_clients)
   \<and> host web_measurement \<notin> set dns_hosts
   \<and> snd (broadcast_to_websockets send_ok (Ping_update [web_measurement] (Some 0))
            demo_clients)
       = [(full_client, Ping_update [web_measurement] (Some 0), None),
          (dns_client, Ping_update [web_measurement] (Some 0), None),
          (plain_client, Ping_update [web_measurement] (Some 0), None)]"
proof -
  have "accepted_by dns_client = Dns_status"
    by (simp add: dns_client_def)
  moreover have "dns_client \<in> set (websocket_clients demo_clients)"
    by (simp add: demo_clients_def)
  moreover have "host web_measurement \<notin> set dns_hosts"
    by (simp add: web_measurement_def dns_hosts_def)
  moreover have "snd (broadcast_to_websockets send_ok (Ping_update [web_measurement] (Some 0))
            demo_clients)
       = [(full_client, Ping_update [web_measurement] (Some 0), None),
          (dns_client, Ping_update [web_measurement] (Some 0), None),
          (plain_client, Ping_update [web_measurement] (Some 0), None)]"
    by (simp add: broadcast_sent dns_classify_cycle wants_def topics_of_fixtures
          demo_clients_def init_monitor_def web_measurement_def dns_hosts_def send_ok_def)
  ultimately show ?thesis by simp
qed

subsection \<open>C5: the single-host probe\<close>

text \<open>
  Claim C5 asks, among other things, that a probe of a host that cannot be resolved yields
  \<^verbatim>\<open>packet_loss=true\<close> with an error message. The library reports such a host by returning
  \<^verbatim>\<open>False\<close>; \<^verbatim>\<open>ping_host\<close> tests the result for \<^verbatim>\<open>None\<close> only, so the \<^verbatim>\<open>else\<close> branch
  reports the host as reachable: no packet loss, no error message, and the response time
  \<^verbatim>\<open>round(False, 2)\<close>, which is 0.
\<close>

theorem ping_host_unresolved_reported_reachable:
  "ping_unresolved ''no-such-host.invalid'' 3 = Returns_False
   \<and> packet_loss (ping_host ping_unresolved 0 ''no-such-host.invalid'' 3) = False
   \<and> error_message (ping_host ping_unresolved 0 ''no-such-host.invalid'' 3) = None
   \<and> response_time_ms (ping_host ping_unresolved 0 ''no-such-host.invalid'' 3) = Some 0"
  by (simp add: ping_host_def ping_unresolved_def)

subsection \<open>C6: the \<^verbatim>\<open>subscribe_host\<close> command\<close>

text \<open>
  Claim C6, as amended: handling a \<^verbatim>\<open>subscribe_host\<close> message leaves the manager, the
  monitor and the database as they were; the reply is \<^verbatim>\<open>subscription_confirmed\<close> when the
  message carries a non-empty host, and an \<^verbatim>\<open>error\<close> reply asking for the host parameter
  otherwise.
\<close>

theorem subscribe_host_acknowledged:
  assumes "msg_type message = Some ''subscribe_host''"
  shows "fst (handle_websocket_message now message st) = st
       \<and> (\<forall>h. msg_host message = Some h \<and> h \<noteq> [] \<longrightarrow>
             snd (handle_websocket_message now message st)
               = Subscription_confirmed h (''Subscribed to updates for '' @ h))
       \<and> (msg_host message = None \<or> msg_host message = Some [] \<longrightarrow>
             snd (handle_websocket_message now message st)
               = Error_message ''Host parameter required for subscription'')"
  using assms
  by (auto simp: handle_websocket_message_state)
     (auto simp: handle_websocket_message_def Let_def)

text \<open>An instance for C6: a subscription to \<^verbatim>\<open>a.com\<close>.\<close>

theorem subscribe_host_acknowledged_witness:
  "msg_type subscribe_a_com = Some ''subscribe_host''
   \<and> msg_host subscribe_a_com = Some ''a.com''
   \<and> fst (handle_websocket_message 0 subscribe_a_com (demo_manager, demo_clients, demo_db))
       = (demo_manager, demo_clients, demo_db)
   \<and> snd (handle_websocket_message 0 subscribe_a_com (demo_manager, demo_clients, demo_db))
       = Subscription_confirmed ''a.com'' ''Subscribed to updates for a.com''"
proof -
  have t: "msg_type subscribe_a_com = Some ''subscribe_host''"
    and h: "msg_host subscribe_a_com = Some ''a.com''"
    by (simp_all add: subscribe_a_com_def)
  from subscribe_host_acknowledged [OF t, of 0 "(demo_manager, demo_clients, demo_db)"] h t
  show ?thesis by simp
qed

text \<open>
  C6 as first stated fails: a \<^verbatim>\<open>subscribe_host\<close> message without a host is answered by an
  \<^verbatim>\<open>error\<close> reply, not by an acknowledgment.
\<close>

theorem subscribe_host_without_host_counterexample:
  "msg_type subscribe_without_host = Some ''subscribe_host''
   \<and> snd (handle_websocket_message 0 subscribe_without_host
            (demo_manager, demo_clients, demo_db))
       = Error_message ''Host parameter required for subscription''"
  by (simp add: handle_websocket_message_def subscribe_without_host_def)

subsection \<open>C7: a failed delivery\<close>

text \<open>
  Claim C7, for \<^verbatim>\<open>PingMonitor.broadcast_to_websockets\<close> and for
  \<^verbatim>\<open>WebSocketManager.broadcast\<close>: a client whose send raised is no longer registered when
  the call returns; the clients a send is attempted to, and the dicts sent, are the same
  as when no send raises; a client is only removed if a send to it raised. Both functions
  return normally on every input: the exception of a send is caught inside the loop body.
\<close>

theorem broadcast_failure_isolated:
  "(\<forall>c d e. (c, d, Some e) \<in> set (snd (broadcast_to_websockets send_json data s)) \<longrightarrow>
       c \<notin> set (websocket_clients (fst (broadcast_to_websockets send_json data s))))
   \<and> map (\<lambda>a. (fst a, fst (snd a))) (snd (broadcast_to_websockets send_json data s))
       = map (\<lambda>a. (fst a, fst (snd a))) (snd (broadcast_to_websockets send_ok data s))
   \<and> (\<forall>c \<in> set (websocket_clients s).
         c \<in> set (websocket_clients (fst (broadcast_to_websockets send_json data s)))
         \<or> (\<exists>d e. (c, d, Some e) \<in> set (snd (broadcast_to_websockets send_json data s))))
   \<and> (\<forall>k c d e. (k, c) \<in> set (active_connections (fst ms))
          \<and> (c, d, Some e) \<in> set (snd (broadcast send_json data ms)) \<longrightarrow>
       k \<notin> fst ` set (active_connections (fst (fst (broadcast send_json data ms))))
       \<and> c \<notin> set (websocket_clients (snd (fst (broadcast send_json data ms)))))
   \<and> map (\<lambda>a. (fst a, fst (snd a))) (snd (broadcast send_json data ms))
       = map (\<lambda>kv. (snd kv, data)) (active_connections (fst ms))"
proof -
  have 1: "c \<notin> set (websocket_clients (fst (broadcast_to_websockets send_json data s)))"
    if "(c, d, Some e) \<in> set (snd (broadcast_to_websockets send_json data s))" for c d e
  proof -
    from that have "wants (snd (dns_classify data)) c"
      and "send_json c (fst (dns_classify data)) = Some e"
      by (auto simp: broadcast_sent)
    then show ?thesis
      by (simp add: broadcast_clients)
  qed
  have 2: "map (\<lambda>a. (fst a, fst (snd a))) (snd (broadcast_to_websockets send_json data s))
       = map (\<lambda>a. (fst a, fst (snd a))) (snd (broadcast_to_websockets send_ok data s))"
    by (simp add: broadcast_sent comp_def)
  have 3: "c \<in> set (websocket_clients (fst (broadcast_to_websockets send_json data s)))
         \<or> (\<exists>d e. (c, d, Some e) \<in> set (snd (broadcast_to_websockets send_json data s)))"
    if "c \<in> set (websocket_clients s)" for c
  proof (cases "wants (snd (dns_classify data)) c
                  \<and> send_json c (fst (dns_classify data)) \<noteq> None")
    case True
    then obtain e where "send_json c (fst (dns_classify data)) = Some e"
      by blast
    with True that
    have "(c, fst (dns_classify data), Some e)
            \<in> set (snd (broadcast_to_websockets send_json data s))"
      by (force simp: broadcast_sent)
    then show ?thesis by blast
  next
    case False
    with that show ?thesis
      by (simp add: broadcast_clients)
  qed
  have 4: "k \<notin> fst ` set (active_connections (fst (fst (broadcast send_json data ms))))
       \<and> c \<notin> set (websocket_clients (snd (fst (broadcast send_json data ms))))"
    if "(k, c) \<in> set (active_connections (fst ms))"
       "(c, d, Some e) \<in> set (snd (broadcast send_json data ms))" for k c d e
  proof -
    from that(2) have "send_json c data = Some e"
      by (auto simp: manager_broadcast_sent)
    then have "send_json c data \<noteq> None"
      by simp
    with that(1) show ?thesis
      by (force simp: manager_broadcast_connections manager_broadcast_clients image_iff)
  qed
  have 5: "map (\<lambda>a. (fst a, fst (snd a))) (snd (broadcast send_json data ms))
       = map (\<lambda>kv. (snd kv, data)) (active_connections (fst ms))"
    by (simp add: manager_broadcast_sent comp_def)
  from 1 2 3 4 5 show ?thesis by blast
qed

text \<open>
  An instance for C7: the send to the first client raises; that client is removed, and
  the clients after it are still sent to.
\<close>

theorem broadcast_failure_isolated_witness:
  "(full_client, Ping_update [web_measurement] (Some 0), Some ''connection closed'')
      \<in> set (snd (broadcast_to_websockets send_fails_full
                    (Ping_update [web_measurement] (Some 0)) demo_clients))
   \<and> full_client \<notin> set (websocket_clients (fst (broadcast_to_websockets send_fails_full
                    (Ping_update [web_measurement] (Some 0)) demo_clients)))
   \<and> map (\<lambda>a. (fst a, fst (snd a))) (snd (broadcast_to_websockets send_fails_full
                    (Ping_update [web_measurement] (Some 0)) demo_clients))
       = [(full_client, Ping_update [web_measurement] (Some 0)),
          (dns_client, Ping_update [web_measurement] (Some 0)),
          (plain_client, Ping_update [web_measurement] (Some 0))]
   \<and> plain_client \<in> set (websocket_clients demo_clients)
   \<and> plain_client \<in> set (websocket_clients (fst (broadcast_to_websockets send_fails_full
                    (Ping_update [web_measurement] (Some 0)) demo_clients)))
   \<and> (1, full_client) \<in> set (active_connections (fst (demo_manager, demo_clients)))
   \<and> (full_client, Other_message ''notice'', Some ''connection closed'')
        \<in> set (snd (broadcast send_fails_full (Other_message ''notice'')
                      (demo_manager, demo_clients)))
   \<and> 1 \<notin> fst ` set (active_connections (fst (fst (broadcast send_fails_full
                      (Other_message ''notice'') (demo_manager, demo_clients)))))
   \<and> full_client \<notin> set (websocket_clients (snd (fst (broadcast send_fails_full
                      (Other_message ''notice'') (demo_manager, demo_clients)))))
   \<and> map (\<lambda>a. (fst a, fst (snd a))) (snd (broadcast send_fails_full (Other_message ''notice'')
                      (demo_manager, demo_clients)))
       = [(full_client, Other_message ''notice''), (dns_client, Other_message ''notice''),
          (plain_client, Other_message ''notice'')]"
proof -
  let ?d = "Ping_update [web_measurement] (Some 0)"
  have a: "(full_client, ?d, Some ''connection closed'')
      \<in> set (snd (broadcast_to_websockets send_fails_full ?d demo_clients))"
    by (simp add: broadcast_sent dns_classify_cycle wants_def topics_of_fixtures
          demo_clients_def init_monitor_def web_measurement_def dns_hosts_def send_fails_full_def)
  have b: "map (\<lambda>a. (fst a, fst (snd a))) (snd (broadcast_to_websockets send_ok ?d demo_clients))
       = [(full_client, ?d), (dns_client, ?d), (plain_client, ?d)]"
    by (simp add: broadcast_sent dns_classify_cycle wants_def topics_of_fixtures
          demo_clients_def init_monitor_def web_measurement_def dns_hosts_def)
  have c: "plain_client \<in> set (websocket_clients demo_clients)"
    by (simp add: demo_clients_def)
  have d: "\<forall>d e. (plain_client, d, Some e)
             \<notin> set (snd (broadcast_to_websockets send_fails_full ?d demo_clients))"
    using fixtures_differ by (auto simp: broadcast_sent send_fails_full_def)
  have e: "(1, full_client) \<in> set (active_connections (fst (demo_manager, demo_clients)))"
    by (simp add: demo_manager_def)
  have f: "(full_client, Other_message ''notice'', Some ''connection closed'')
        \<in> set (snd (broadcast send_fails_full (Other_message ''notice'')
                      (demo_manager, demo_clients)))"
    by (simp add: manager_broadcast_sent demo_manager_def send_fails_full_def)
  have g: "map (\<lambda>kv. (snd kv, Other_message ''notice''))
              (active_connections (fst (demo_manager, demo_clients)))
       = [(full_client, Other_message ''notice''), (dns_client, Other_message ''notice''),
          (plain_client, Other_message ''notice'')]"
    by (simp add: demo_manager_def)
  note t1 = broadcast_failure_isolated [where send_json = send_fails_full and data = ?d
              and s = demo_clients and ms = "(demo_manager, demo_clients)"]
  note t2 = broadcast_failure_isolated [where send_json = send_fails_full
              and data = "Other_message ''notice''"
              and s = demo_clients and ms = "(demo_manager, demo_clients)"]
  from t1 a have 1: "full_client \<notin> set (websocket_clients (fst (broadcast_to_websockets
                    send_fails_full ?d demo_clients)))"
    by blast
  from t1 b have 2: "map (\<lambda>a. (fst a, fst (snd a))) (snd (broadcast_to_websockets send_fails_full
                    ?d demo_clients)) = [(full_client, ?d), (dns_client, ?d), (plain_client, ?d)]"
    by simp
  from t1 c d have 3: "plain_client \<in> set (websocket_clients (fst (broadcast_to_websockets
                    send_fails_full ?d demo_clients)))"
    by blast
  from t2 e f have 4: "1 \<notin> fst ` set (active_connections (fst (fst (broadcast send_fails_full
                      (Other_message ''notice'') (demo_manager, demo_clients)))))
      \<and> full_client \<notin> set (websocket_clients (snd (fst (broadcast send_fails_full
                      (Other_message ''notice'') (demo_manager, demo_clients)))))"
    by blast
  from t2 g have 5: "map (\<lambda>a. (fst a, fst (snd a))) (snd (broadcast send_fails_full
        (Other_message ''notice'') (demo_manager, demo_clients)))
       = [(full_client, Other_message ''notice''), (dns_client, Other_message ''notice''),
          (plain_client, Other_message ''notice'')]"
    by simp
  from a 1 2 c 3 e f 4 5 show ?thesis by blast
qed

subsection \<open>C8: removing a registered host\<close>

text \<open>
  Claim C8: in a state whose registry is free of duplicates (every state the operations
  produce from the initial one), removing a registered host takes it out of the registry
  and deletes its cache entry in the same call, and changes nothing else: the other hosts
  keep their order, the other cache entries and the other fields are as before.
\<close>

theorem remove_target_host_evicts:
  assumes "distinct (target_hosts s)" and "h \<in> set (target_hosts s)"
  shows "h \<notin> set (target_hosts (remove_target_host h s))
       \<and> latest_results (remove_target_host h s) h = None
       \<and> target_hosts (remove_target_host h s) = filter (\<lambda>x. x \<noteq> h) (target_hosts s)
       \<and> (\<forall>k. k \<noteq> h \<longrightarrow> latest_results (remove_target_host h s) k = latest_results s k)
       \<and> websocket_clients (remove_target_host h s) = websocket_clients s
       \<and> is_running (remove_target_host h s) = is_running s
       \<and> ping_interval (remove_target_host h s) = ping_interval s"
  proof -
  have "remove1 h (target_hosts s) = filter (\<lambda>x. x \<noteq> h) (target_hosts s)"
    using assms(1) by (rule remove1_distinct_filter)
  then show ?thesis
    using assms by (auto simp: remove_target_host_def Let_def)
qed

text \<open>An instance for C8: \<^verbatim>\<open>google.com\<close> is removed, the entry of \<^verbatim>\<open>8.8.8.8\<close> stays.\<close>

theorem remove_target_host_evicts_witness:
  "distinct (target_hosts demo_monitor) \<and> ''google.com'' \<in> set (target_hosts demo_monitor)
   \<and> latest_results demo_monitor ''google.com'' \<noteq> None
   \<and> ''google.com'' \<notin> set (target_hosts (remove_target_host ''google.com'' demo_monitor))
   \<and> latest_results (remove_target_host ''google.com'' demo_monitor) ''google.com'' = None
   \<and> target_hosts (remove_target_host ''google.com'' demo_monitor)
       = [''8.8.8.8'', ''1.1.1.1'', ''208.67.222.222'', ''github.com'']
   \<and> latest_results (remove_target_host ''google.com'' demo_monitor) ''8.8.8.8''
       = latest_results demo_monitor ''8.8.8.8''"
  using remove_target_host_evicts [of demo_monitor "''google.com''"]
  by (simp add: demo_monitor_def init_monitor_def)

subsection \<open>C9: adding a host twice\<close>

text \<open>
  Claim C9: adding a host that is registered changes nothing, so adding twice is adding
  once; a registry free of duplicates stays so under any sequence of additions, in
  particular starting from the initial registry.
\<close>

theorem add_target_host_idempotent:
  "(h \<in> set (target_hosts s) \<longrightarrow> add_target_host h s = s)
   \<and> add_target_host h (add_target_host h s) = add_target_host h s
   \<and> (distinct (target_hosts s) \<longrightarrow> distinct (target_hosts (fold add_target_host hs s)))
   \<and> distinct (target_hosts (fold add_target_host hs (init_monitor i)))"
  by (simp add: distinct_fold_add distinct_init_monitor) (simp add: add_target_host_def)

text \<open>An instance for C9.\<close>

theorem add_target_host_idempotent_witness:
  "''google.com'' \<in> set (target_hosts demo_monitor)
   \<and> add_target_host ''google.com'' demo_monitor = demo_monitor
   \<and> distinct (target_hosts demo_monitor)
   \<and> distinct (target_hosts (fold add_target_host [''a.com'', ''google.com'', ''a.com''] demo_monitor))"
  using add_target_host_idempotent [of "''google.com''" demo_monitor "[''a.com'', ''google.com'', ''a.com'']" 1]
  by (simp add: demo_monitor_def init_monitor_def)

subsection \<open>C10: removing a host that is not registered\<close>

text \<open>
  Claim C10: removing a host that is not in the registry changes nothing, neither the
  registry nor the cache; on a registry free of duplicates, removing a host twice is
  removing it once.
\<close>

theorem remove_target_host_absent_noop:
  "(h \<notin> set (target_hosts s) \<longrightarrow> remove_target_host h s = s)
   \<and> (distinct (target_hosts s) \<longrightarrow>
        remove_target_host h (remove_target_host h s) = remove_target_host h s)"
  by (auto simp: remove_target_host_def Let_def)

text \<open>An instance for C10.\<close>

theorem remove_target_host_absent_noop_witness:
  "''a.com'' \<notin> set (target_hosts demo_monitor)
   \<and> remove_target_host ''a.com'' demo_monitor = demo_monitor
   \<and> distinct (target_hosts demo_monitor)
   \<and> remove_target_host ''google.com'' (remove_target_host ''google.com'' demo_monitor)
       = remove_target_host ''google.com'' demo_monitor"
  using remove_target_host_absent_noop [of "''a.com''" demo_monitor]
        remove_target_host_absent_noop [of "''google.com''" demo_monitor]
  by (simp add: demo_monitor_def init_monitor_def)

end
